theory Spec2Isabelle
  imports Main
begin

section \<open>The application route mixin of ember-simple-auth-auth0\<close>

text \<open>
  The source is \<^verbatim>\<open>addon/mixins/application-route-mixin.js\<close>. The mixin keeps two
  run-loop timers (\<^verbatim>\<open>_renewJob\<close>, \<^verbatim>\<open>_expireJob\<close>) for an authenticated session.
  Its methods mutate the route object, the run loop and the session service; the model
  passes one record holding all three through every method.

  Promises are modelled by the way they settle. A \<^verbatim>\<open>then(f, g)\<close> runs \<open>f\<close> on
  \<open>Resolved\<close>, \<open>g\<close> on \<open>Rejected\<close> and nothing on \<open>Pending\<close> (a promise that never
  settles).
\<close>

datatype outcome = Resolved | Rejected | Pending

text \<open>The two functions the mixin hands to \<^verbatim>\<open>later\<close>.\<close>

datatype job = ProcessSessionRenewed | ProcessSessionExpired

text \<open>
  The calls that leave the mixin: the overridable hook, \<^verbatim>\<open>session.authenticate\<close> with
  the name of its authenticator, and \<^verbatim>\<open>session.invalidate\<close>. The route records them in
  the order they are made.
\<close>

datatype event = BeforeSessionExpired | Authenticate string | Invalidate

text \<open>
  The session service. \<open>expiration\<close> is what \<^verbatim>\<open>getSessionExpiration\<close> returns for
  \<^verbatim>\<open>session.data.authenticated\<close> (that helper is not part of the mixin, so its result is
  a parameter): \<open>None\<close> stands for \<^verbatim>\<open>null\<close> or \<^verbatim>\<open>undefined\<close>, \<open>Some e\<close> for the
  instant \<open>e\<close> in seconds. Instants and delays are whole numbers. \<open>payload\<close> is
  whatever else \<^verbatim>\<open>session.data.authenticated\<close> holds: a blob that was replaced is a
  session that changed, also when the expiration stayed.
\<close>

record session =
  isAuthenticated :: bool
  expiration :: "int option"
  payload :: nat

text \<open>
  The two options the mixin reads from the \<^verbatim>\<open>auth0\<close> service. An absent
  \<^verbatim>\<open>silentAuthRenewSeconds\<close> is \<open>None\<close>.
\<close>

record auth0 =
  silentAuthRenewSeconds :: "int option"
  silentAuthOnSessionExpire :: bool

text \<open>A live timer of the run loop: the handle \<^verbatim>\<open>later\<close> returned, the function, the delay.\<close>

record timer =
  handle :: nat
  callback :: job
  wait :: int

text \<open>
  The route object and what it reaches. \<open>fastBoot\<close> is \<^verbatim>\<open>typeof FastBoot !== 'undefined'\<close>,
  \<open>clock\<close> is what \<^verbatim>\<open>now()\<close> returns, \<open>props\<close> are the properties of the route that hold
  timer handles (a property that was never set is \<open>None\<close>), \<open>timers\<close> are the live
  timers of the run loop, \<open>fresh\<close> is the next unused handle and \<open>trace\<close> the outgoing
  calls so far. \<open>remaining\<close> is the value Ember has cached for the computed property
  \<^verbatim>\<open>_jwtRemainingTimeInSeconds\<close>: \<open>None\<close> before the first read and after the cache
  was dropped.
\<close>

record route =
  inTesting :: bool
  fastBoot :: bool
  auth0 :: auth0
  session :: session
  clock :: int
  props :: "string \<Rightarrow> nat option"
  timers :: "timer list"
  fresh :: nat
  trace :: "event list"
  remaining :: "int option"

text \<open>
  What lies outside the mixin: the hook \<^verbatim>\<open>beforeSessionExpired\<close> as an application may
  override it, and the session service's \<^verbatim>\<open>authenticate\<close> and \<^verbatim>\<open>invalidate\<close>. Each
  may change the session; the first two return a promise. The events the session
  service sends back to the route are the methods \<^verbatim>\<open>sessionAuthenticated\<close> and
  \<^verbatim>\<open>sessionInvalidated\<close> below; they are steps of their own, not part of these calls.
\<close>

record ext =
  hook :: "session \<Rightarrow> outcome \<times> session"
  authenticate :: "string \<Rightarrow> session \<Rightarrow> outcome \<times> session"
  invalidate :: "session \<Rightarrow> session"

subsection \<open>Computed properties and the clock\<close>

text \<open>
  \<^verbatim>\<open>_jwtRemainingTimeInSeconds\<close> is declared \<^verbatim>\<open>computed('_expiresAt', ...)\<close> and
  \<^verbatim>\<open>_expiresAt\<close> is declared
  \<^verbatim>\<open>computed('session.{data.authenticated,isAuthenticated}', ...)\<close>. Ember keeps the
  value of a computed property until one of its dependent keys changes. So the cached
  remaining seconds are dropped exactly when the session changes; \<^verbatim>\<open>now()\<close> is no
  dependent key, and time passing drops nothing. Every step that hands the route a
  session goes through \<open>setSession\<close>.
\<close>

definition setSession :: "session \<Rightarrow> route \<Rightarrow> route" where
  "setSession s r =
     r\<lparr>session := s, remaining := (if s = session r then remaining r else None)\<rparr>"

text \<open>Time passing: \<^verbatim>\<open>now()\<close> returns \<open>d\<close> seconds more than before.\<close>

definition advance :: "int \<Rightarrow> route \<Rightarrow> route" where
  "advance d r = r\<lparr>clock := clock r + d\<rparr>"

subsection \<open>The run loop\<close>

text \<open>
  \<^verbatim>\<open>later(this, fn, wait)\<close> starts a timer and returns its handle;
  \<^verbatim>\<open>cancel(h)\<close> stops the timer with that handle and does nothing for \<^verbatim>\<open>undefined\<close>
  or for a handle that is no longer live.
\<close>

definition later :: "job \<Rightarrow> int \<Rightarrow> route \<Rightarrow> nat \<times> route" where
  "later fn ms r =
     (fresh r,
      r\<lparr>timers := timers r @ [\<lparr>handle = fresh r, callback = fn, wait = ms\<rparr>],
        fresh := Suc (fresh r)\<rparr>)"

definition cancel :: "nat option \<Rightarrow> route \<Rightarrow> route" where
  "cancel h r =
     (case h of
        None \<Rightarrow> r
      | Some k \<Rightarrow> r\<lparr>timers := filter (\<lambda>t. handle t \<noteq> k) (timers r)\<rparr>)"

subsection \<open>The mixin\<close>

text \<open>\<^verbatim>\<open>beforeSessionExpired() { return resolve(); }\<close>, the hook as the mixin defines it.\<close>

definition beforeSessionExpired :: "session \<Rightarrow> outcome \<times> session" where
  "beforeSessionExpired s = (Resolved, s)"

text \<open>
  \<^verbatim>\<open>_scheduleJob(jobName, jobFn, timeInMilli)\<close>. Its first statement is
  \<^verbatim>\<open>cancel(this.jobName)\<close>: it reads the property whose name is the text
  \<^verbatim>\<open>jobName\<close>, not the property the argument names.
\<close>

definition scheduleJob :: "string \<Rightarrow> job \<Rightarrow> int \<Rightarrow> route \<Rightarrow> route" where
  "scheduleJob jobName jobFn timeInMilli r =
     (let r1 = cancel (props r ''jobName'') r;
          (job, r2) = later jobFn timeInMilli r1
      in r2\<lparr>props := (props r2)(jobName \<mapsto> job)\<rparr>)"

text \<open>
  \<^verbatim>\<open>_scheduleRenew\<close>: \<^verbatim>\<open>renewInMilli\<close> is truthy when the option is present and the
  product is not zero.
\<close>

definition scheduleRenew :: "route \<Rightarrow> route" where
  "scheduleRenew r =
     (case silentAuthRenewSeconds (auth0 r) of
        None \<Rightarrow> r
      | Some secs \<Rightarrow>
          (let renewInMilli = secs * 1000
           in if renewInMilli \<noteq> 0
              then scheduleJob ''_renewJob'' ProcessSessionRenewed renewInMilli r
              else r))"

text \<open>
  The getter of \<^verbatim>\<open>_expiresAt\<close>. It reads its dependent keys and nothing else
  (\<^verbatim>\<open>getSessionExpiration\<close> being a function of the blob), so the value Ember
  caches for it is the value the getter returns.
\<close>

definition expiresAt :: "route \<Rightarrow> int option" where
  "expiresAt r =
     (if \<not> isAuthenticated (session r) then Some 0 else expiration (session r))"

text \<open>
  The body of the getter of \<^verbatim>\<open>_jwtRemainingTimeInSeconds\<close>;
  \<^verbatim>\<open>this._expiresAt ?? 0\<close> replaces \<^verbatim>\<open>null\<close> and \<^verbatim>\<open>undefined\<close> by 0.
\<close>

definition jwtRemainingTimeInSeconds_get :: "route \<Rightarrow> int" where
  "jwtRemainingTimeInSeconds_get r =
     (let remaining = (case expiresAt r of None \<Rightarrow> 0 | Some e \<Rightarrow> e) - clock r
      in if remaining < 0 then 0 else remaining)"

text \<open>
  A read of \<^verbatim>\<open>this._jwtRemainingTimeInSeconds\<close>: the cached value when there is one,
  else the getter runs and its result is cached.
\<close>

definition jwtRemainingTimeInSeconds :: "route \<Rightarrow> int \<times> route" where
  "jwtRemainingTimeInSeconds r =
     (case remaining r of
        Some v \<Rightarrow> (v, r)
      | None \<Rightarrow>
          (let v = jwtRemainingTimeInSeconds_get r
           in (v, r\<lparr>remaining := Some v\<rparr>)))"

definition scheduleExpire :: "route \<Rightarrow> route" where
  "scheduleExpire r =
     (let (secs, r1) = jwtRemainingTimeInSeconds r;
          expireInMilli = secs * 1000
      in scheduleJob ''_expireJob'' ProcessSessionExpired expireInMilli r1)"

definition setupFutureEvents :: "route \<Rightarrow> route" where
  "setupFutureEvents r =
     (if inTesting r \<or> fastBoot r then r
      else if isAuthenticated (session r) then scheduleExpire (scheduleRenew r)
      else r)"

text \<open>\<^verbatim>\<open>_clearJobs\<close>: \<^verbatim>\<open>cancel(this._renewJob); cancel(this._expireJob);\<close>\<close>

definition clearJobs :: "route \<Rightarrow> route" where
  "clearJobs r =
     (let r1 = cancel (props r ''_renewJob'') r
      in cancel (props r1 ''_expireJob'') r1)"

text \<open>
  \<^verbatim>\<open>sessionAuthenticated\<close>, \<^verbatim>\<open>sessionInvalidated\<close> and \<^verbatim>\<open>willDestroy\<close>; the
  \<^verbatim>\<open>_super\<close> calls of the first two belong to ember-simple-auth and touch neither
  timers nor session.
\<close>

definition sessionAuthenticated :: "route \<Rightarrow> route" where
  "sessionAuthenticated r = setupFutureEvents r"

definition sessionInvalidated :: "route \<Rightarrow> route" where
  "sessionInvalidated r = clearJobs r"

definition willDestroy :: "route \<Rightarrow> route" where
  "willDestroy r = clearJobs r"

text \<open>
  \<^verbatim>\<open>_trySilentAuth\<close>. With the option on it returns
  \<^verbatim>\<open>new RSVP.Promise((resolve, reject) => authenticate(...).then(reject, resolve))\<close>,
  with the option off \<^verbatim>\<open>RSVP.resolve()\<close>.
\<close>

definition trySilentAuth :: "ext \<Rightarrow> route \<Rightarrow> outcome \<times> route" where
  "trySilentAuth x r =
     (if silentAuthOnSessionExpire (auth0 r) then
        (let (p, s) = authenticate x ''authenticator:auth0-silent-auth'' (session r);
             r1 = (setSession s r)
                    \<lparr>trace := trace r @ [Authenticate ''authenticator:auth0-silent-auth'']\<rparr>
         in (case p of
               Resolved \<Rightarrow> (Rejected, r1)
             | Rejected \<Rightarrow> (Resolved, r1)
             | Pending \<Rightarrow> (Pending, r1)))
      else (Resolved, r))"

definition invalidateIfAuthenticated :: "ext \<Rightarrow> route \<Rightarrow> route" where
  "invalidateIfAuthenticated x r =
     (if isAuthenticated (session r)
      then (setSession (invalidate x (session r)) r)\<lparr>trace := trace r @ [Invalidate]\<rparr>
      else r)"

text \<open>
  \<^verbatim>\<open>_processSessionRenewed\<close>:
  \<^verbatim>\<open>this._trySilentAuth().then(this._scheduleRenew, this._setupFutureEvents)\<close>.
\<close>

definition processSessionRenewed :: "ext \<Rightarrow> route \<Rightarrow> route" where
  "processSessionRenewed x r =
     (case trySilentAuth x r of
        (Resolved, r1) \<Rightarrow> scheduleRenew r1
      | (Rejected, r1) \<Rightarrow> setupFutureEvents r1
      | (Pending, r1) \<Rightarrow> r1)"

text \<open>The call of the hook, recorded in the trace.\<close>

definition callHook :: "ext \<Rightarrow> route \<Rightarrow> outcome \<times> route" where
  "callHook x r =
     (let (p, s) = hook x (session r)
      in (p, (setSession s r)\<lparr>trace := trace r @ [BeforeSessionExpired]\<rparr>))"

text \<open>
  \<^verbatim>\<open>_processSessionExpired\<close>:
  \<^verbatim>\<open>this.beforeSessionExpired().then(this._trySilentAuth)
      .then(this._invalidateIfAuthenticated, this._scheduleExpire)\<close>.
  A rejection of the hook skips the first \<^verbatim>\<open>then\<close> and reaches the rejection handler
  of the second.
\<close>

definition processSessionExpired :: "ext \<Rightarrow> route \<Rightarrow> route" where
  "processSessionExpired x r =
     (case callHook x r of
        (Pending, r1) \<Rightarrow> r1
      | (Rejected, r1) \<Rightarrow> scheduleExpire r1
      | (Resolved, r1) \<Rightarrow>
          (case trySilentAuth x r1 of
             (Resolved, r2) \<Rightarrow> invalidateIfAuthenticated x r2
           | (Rejected, r2) \<Rightarrow> scheduleExpire r2
           | (Pending, r2) \<Rightarrow> r2))"

text \<open>
  The run loop firing the timer with handle \<open>h\<close>: a live timer leaves the run loop and its
  function runs; a handle that is not live does nothing.
\<close>

definition fire :: "ext \<Rightarrow> nat \<Rightarrow> route \<Rightarrow> route" where
  "fire x h r =
     (case find (\<lambda>t. handle t = h) (timers r) of
        None \<Rightarrow> r
      | Some t \<Rightarrow>
          (let r1 = r\<lparr>timers := filter (\<lambda>u. handle u \<noteq> h) (timers r)\<rparr>
           in case callback t of
                ProcessSessionRenewed \<Rightarrow> processSessionRenewed x r1
              | ProcessSessionExpired \<Rightarrow> processSessionExpired x r1))"

text \<open>How often \<^verbatim>\<open>session.invalidate()\<close> has been called.\<close>

definition invalidations :: "route \<Rightarrow> nat" where
  "invalidations r = length (filter (\<lambda>e. e = Invalidate) (trace r))"

text \<open>The live timers that run a given function.\<close>

definition live :: "job \<Rightarrow> route \<Rightarrow> timer list" where
  "live fn r = filter (\<lambda>t. callback t = fn) (timers r)"

text \<open>
  Two points on the way through \<^verbatim>\<open>_processSessionExpired\<close>: the route once the hook's
  promise has been obtained, and the route at which the handlers of the second
  \<^verbatim>\<open>then\<close> run (where \<^verbatim>\<open>_invalidateIfAuthenticated\<close> reads
  \<^verbatim>\<open>session.isAuthenticated\<close> again).
\<close>

definition afterHook :: "ext \<Rightarrow> route \<Rightarrow> route" where
  "afterHook x r = snd (callHook x r)"

definition atRecheck :: "ext \<Rightarrow> route \<Rightarrow> route" where
  "atRecheck x r = snd (trySilentAuth x (afterHook x r))"

text \<open>The authenticator \<^verbatim>\<open>_trySilentAuth\<close> names.\<close>

definition silent :: string where
  "silent = ''authenticator:auth0-silent-auth''"

subsection \<open>Example routes and collaborators\<close>

text \<open>
  A route outside tests and FastBoot, renewal every 30 seconds, silent authentication on
  expiry switched on, a session whose token expires at second 1060, the clock at 1000,
  no timers yet.
\<close>

definition loggedIn :: route where
  "loggedIn =
     \<lparr>inTesting = False, fastBoot = False,
      auth0 = \<lparr>silentAuthRenewSeconds = Some 30, silentAuthOnSessionExpire = True\<rparr>,
      session = \<lparr>isAuthenticated = True, expiration = Some 1060, payload = 0\<rparr>,
      clock = 1000, props = (\<lambda>n. None), timers = [], fresh = 0, trace = [],
      remaining = None\<rparr>"

text \<open>The same route with silent authentication on expiry switched off.\<close>

definition loggedInPlain :: route where
  "loggedInPlain =
     loggedIn\<lparr>auth0 := \<lparr>silentAuthRenewSeconds = Some 30, silentAuthOnSessionExpire = False\<rparr>\<rparr>"

text \<open>The same route with a session that is not authenticated.\<close>

definition loggedOut :: route where
  "loggedOut =
     loggedIn\<lparr>session := \<lparr>isAuthenticated = False, expiration = None, payload = 0\<rparr>\<rparr>"

text \<open>The same route with a token that expired at second 900.\<close>

definition overdue :: route where
  "overdue =
     loggedIn\<lparr>session := \<lparr>isAuthenticated = True, expiration = Some 900, payload = 0\<rparr>\<rparr>"

text \<open>
  Collaborators. All invalidate by clearing \<^verbatim>\<open>isAuthenticated\<close>. \<open>accepting\<close>
  authenticates with a token expiring at second 2000; \<open>refusing\<close> rejects and leaves
  the session alone; \<open>clearing\<close> rejects and leaves the session unauthenticated;
  \<open>stalling\<close> has a hook whose promise never settles; \<open>objecting\<close> has a hook whose
  promise rejects.
\<close>

definition accepting :: ext where
  "accepting =
     \<lparr>hook = beforeSessionExpired,
      authenticate = (\<lambda>n s. (Resolved, s\<lparr>isAuthenticated := True, expiration := Some 2000\<rparr>)),
      invalidate = (\<lambda>s. s\<lparr>isAuthenticated := False\<rparr>)\<rparr>"

definition refusing :: ext where
  "refusing =
     \<lparr>hook = beforeSessionExpired,
      authenticate = (\<lambda>n s. (Rejected, s)),
      invalidate = (\<lambda>s. s\<lparr>isAuthenticated := False\<rparr>)\<rparr>"

definition clearing :: ext where
  "clearing =
     \<lparr>hook = beforeSessionExpired,
      authenticate =
        (\<lambda>n s. (Rejected, \<lparr>isAuthenticated = False, expiration = None, payload = 0\<rparr>)),
      invalidate = (\<lambda>s. s\<lparr>isAuthenticated := False\<rparr>)\<rparr>"

definition objecting :: ext where
  "objecting =
     \<lparr>hook = (\<lambda>s. (Rejected, s)),
      authenticate = (\<lambda>n s. (Rejected, s)),
      invalidate = (\<lambda>s. s\<lparr>isAuthenticated := False\<rparr>)\<rparr>"

definition stalling :: ext where
  "stalling =
     \<lparr>hook = (\<lambda>s. (Pending, s)),
      authenticate = (\<lambda>n s. (Rejected, s)),
      invalidate = (\<lambda>s. s\<lparr>isAuthenticated := False\<rparr>)\<rparr>"

subsection \<open>What each step leaves unchanged\<close>

lemma trace_cancel [simp]: "trace (cancel h r) = trace r"
  by (simp add: cancel_def split: option.split)

lemma session_cancel [simp]: "session (cancel h r) = session r"
  by (simp add: cancel_def split: option.split)

lemma props_cancel [simp]: "props (cancel h r) = props r"
  by (simp add: cancel_def split: option.split)

lemma fresh_cancel [simp]: "fresh (cancel h r) = fresh r"
  by (simp add: cancel_def split: option.split)

lemma timers_cancel_subset: "set (timers (cancel h r)) \<subseteq> set (timers r)"
  by (auto simp add: cancel_def split: option.split)

lemma trace_scheduleJob [simp]: "trace (scheduleJob n f t r) = trace r"
  by (simp add: scheduleJob_def later_def Let_def)

lemma session_scheduleJob [simp]: "session (scheduleJob n f t r) = session r"
  by (simp add: scheduleJob_def later_def Let_def)

lemma props_scheduleJob: "props (scheduleJob n f t r) = (props r)(n \<mapsto> fresh r)"
  by (simp add: scheduleJob_def later_def Let_def)

lemma timers_scheduleJob:
  "timers (scheduleJob n f t r)
     = timers (cancel (props r ''jobName'') r) @ [\<lparr>handle = fresh r, callback = f, wait = t\<rparr>]"
  by (simp add: scheduleJob_def later_def Let_def)

lemma jwtRemainingTimeInSeconds_frame [simp]:
  "trace (snd (jwtRemainingTimeInSeconds r)) = trace r"
  "session (snd (jwtRemainingTimeInSeconds r)) = session r"
  "props (snd (jwtRemainingTimeInSeconds r)) = props r"
  "timers (snd (jwtRemainingTimeInSeconds r)) = timers r"
  "fresh (snd (jwtRemainingTimeInSeconds r)) = fresh r"
  by (simp_all add: jwtRemainingTimeInSeconds_def Let_def split: option.split)

lemma setSession_frame [simp]:
  "trace (setSession s r) = trace r"
  "session (setSession s r) = s"
  "props (setSession s r) = props r"
  "timers (setSession s r) = timers r"
  "fresh (setSession s r) = fresh r"
  "auth0 (setSession s r) = auth0 r"
  "inTesting (setSession s r) = inTesting r"
  "fastBoot (setSession s r) = fastBoot r"
  by (simp_all add: setSession_def)

lemma setSession_same [simp]: "setSession (session r) r = r"
  by (simp add: setSession_def)

lemma trace_scheduleRenew [simp]: "trace (scheduleRenew r) = trace r"
  by (simp add: scheduleRenew_def Let_def split: option.split)

lemma session_scheduleRenew [simp]: "session (scheduleRenew r) = session r"
  by (simp add: scheduleRenew_def Let_def split: option.split)

lemma scheduleExpire_eq:
  "scheduleExpire r =
     scheduleJob ''_expireJob'' ProcessSessionExpired
       (fst (jwtRemainingTimeInSeconds r) * 1000) (snd (jwtRemainingTimeInSeconds r))"
  by (simp add: scheduleExpire_def Let_def split: prod.split)

lemma trace_scheduleExpire [simp]: "trace (scheduleExpire r) = trace r"
  by (simp add: scheduleExpire_eq)

lemma session_scheduleExpire [simp]: "session (scheduleExpire r) = session r"
  by (simp add: scheduleExpire_eq)

lemma invalidations_scheduleExpire [simp]: "invalidations (scheduleExpire r) = invalidations r"
  by (simp add: invalidations_def)

lemma props_scheduleRenew_expire:
  "props (scheduleRenew r) ''_expireJob'' = props r ''_expireJob''"
  by (simp add: scheduleRenew_def props_scheduleJob Let_def split: option.split)

lemma live_scheduleRenew:
  "set (live ProcessSessionExpired (scheduleRenew r)) \<subseteq> set (live ProcessSessionExpired r)"
  using timers_cancel_subset [of "props r ''jobName''" r]
  by (auto simp add: scheduleRenew_def live_def timers_scheduleJob Let_def split: option.split)

lemma scheduleRenew_result:
  "silentAuthRenewSeconds (auth0 r) = Some secs \<Longrightarrow> secs \<noteq> 0 \<Longrightarrow>
     props (scheduleRenew r) ''_renewJob'' = Some (fresh r)
     \<and> timers (scheduleRenew r) \<noteq> []
     \<and> last (timers (scheduleRenew r))
         = \<lparr>handle = fresh r, callback = ProcessSessionRenewed, wait = secs * 1000\<rparr>"
  by (simp add: scheduleRenew_def props_scheduleJob timers_scheduleJob Let_def)

lemma scheduleExpire_result:
  "invalidations (scheduleExpire r) = invalidations r
   \<and> props (scheduleExpire r) ''_expireJob'' = Some (fresh r)
   \<and> timers (scheduleExpire r) \<noteq> []
   \<and> last (timers (scheduleExpire r))
       = \<lparr>handle = fresh r, callback = ProcessSessionExpired,
          wait = fst (jwtRemainingTimeInSeconds r) * 1000\<rparr>"
  by (simp add: scheduleExpire_eq props_scheduleJob timers_scheduleJob invalidations_def)

subsection \<open>The helper and the hook, step by step\<close>

lemma trySilentAuth_fst:
  "fst (trySilentAuth x r) =
     (if silentAuthOnSessionExpire (auth0 r)
      then (case fst (authenticate x silent (session r)) of
              Resolved \<Rightarrow> Rejected | Rejected \<Rightarrow> Resolved | Pending \<Rightarrow> Pending)
      else Resolved)"
  by (simp add: trySilentAuth_def silent_def Let_def split: prod.split outcome.split)

lemma trySilentAuth_off:
  "\<not> silentAuthOnSessionExpire (auth0 r) \<Longrightarrow> trySilentAuth x r = (Resolved, r)"
  by (simp add: trySilentAuth_def)

lemma trace_trySilentAuth:
  "\<exists>es. trace (snd (trySilentAuth x r)) = trace r @ es \<and> Invalidate \<notin> set es"
  by (simp add: trySilentAuth_def Let_def split: prod.split outcome.split)

lemma trySilentAuth_fresh: "fresh (snd (trySilentAuth x r)) = fresh r"
  by (simp add: trySilentAuth_def Let_def split: prod.split outcome.split)




lemma callHook_fst: "fst (callHook x r) = fst (hook x (session r))"
  by (simp add: callHook_def split: prod.split)

lemma callHook_trace: "trace (snd (callHook x r)) = trace r @ [BeforeSessionExpired]"
  by (simp add: callHook_def split: prod.split)

lemma callHook_timers: "timers (snd (callHook x r)) = timers r"
  by (simp add: callHook_def split: prod.split)

lemma callHook_fresh: "fresh (snd (callHook x r)) = fresh r"
  by (simp add: callHook_def split: prod.split)

lemma callHook_auth0: "auth0 (snd (callHook x r)) = auth0 r"
  by (simp add: callHook_def split: prod.split)

lemma fresh_afterHook: "fresh (afterHook x r) = fresh r"
  by (simp add: afterHook_def callHook_fresh)

lemma auth0_afterHook: "auth0 (afterHook x r) = auth0 r"
  by (simp add: afterHook_def callHook_auth0)

lemma trace_afterHook: "trace (afterHook x r) = trace r @ [BeforeSessionExpired]"
  by (simp add: afterHook_def callHook_trace)

lemma fresh_atRecheck: "fresh (atRecheck x r) = fresh r"
  by (simp add: atRecheck_def trySilentAuth_fresh fresh_afterHook)

lemma trace_atRecheck: "\<exists>es. trace (atRecheck x r) = trace r @ BeforeSessionExpired # es"
  using trace_trySilentAuth [of x "afterHook x r"]
  by (auto simp add: atRecheck_def trace_afterHook)

lemma trace_invalidateIfAuthenticated:
  "\<exists>es. trace (invalidateIfAuthenticated x r) = trace r @ es"
  by (simp add: invalidateIfAuthenticated_def)

lemma invalidations_append:
  "trace r' = trace r @ es \<Longrightarrow> Invalidate \<notin> set es \<Longrightarrow> invalidations r' = invalidations r"
  by (auto simp add: invalidations_def filter_empty_conv)

lemma invalidations_afterHook: "invalidations (afterHook x r) = invalidations r"
  by (simp add: afterHook_def invalidations_def callHook_trace)

lemma invalidations_atRecheck: "invalidations (atRecheck x r) = invalidations r"
proof -
  obtain es where "trace (atRecheck x r) = trace (afterHook x r) @ es" "Invalidate \<notin> set es"
    using trace_trySilentAuth [of x "afterHook x r"] by (auto simp add: atRecheck_def)
  then have "invalidations (atRecheck x r) = invalidations (afterHook x r)"
    by (rule invalidations_append)
  then show ?thesis by (simp add: invalidations_afterHook)
qed

lemma invalidations_invalidateIfAuthenticated:
  "invalidations (invalidateIfAuthenticated x r)
     = (if isAuthenticated (session r) then Suc (invalidations r) else invalidations r)"
  by (simp add: invalidateIfAuthenticated_def invalidations_def)


lemma processSessionExpired_cases:
  "processSessionExpired x r =
     (case fst (callHook x r) of
        Pending \<Rightarrow> afterHook x r
      | Rejected \<Rightarrow> scheduleExpire (afterHook x r)
      | Resolved \<Rightarrow>
          (case fst (trySilentAuth x (afterHook x r)) of
             Resolved \<Rightarrow> invalidateIfAuthenticated x (atRecheck x r)
           | Rejected \<Rightarrow> scheduleExpire (atRecheck x r)
           | Pending \<Rightarrow> atRecheck x r))"
  by (simp add: processSessionExpired_def afterHook_def atRecheck_def
           split: prod.split outcome.split)

subsection \<open>Scheduling a job\<close>

text \<open>
  C1. The claim is that \<^verbatim>\<open>_scheduleJob\<close> cancels the timer recorded under the job's
  name before it records the new one, so that each name has at most one live timer. The
  method cancels \<^verbatim>\<open>this.jobName\<close>, a property nothing ever sets, so the earlier
  timer stays live. On the example route, scheduling \<^verbatim>\<open>_expireJob\<close> twice leaves
  two live expire timers, and two runs of \<^verbatim>\<open>sessionAuthenticated\<close> leave four
  timers, two for each name.
\<close>

theorem scheduleJob_keeps_earlier_timer:
  "timers (scheduleJob ''_expireJob'' ProcessSessionExpired 60000
             (scheduleJob ''_expireJob'' ProcessSessionExpired 60000 loggedIn))
     = [\<lparr>handle = 0, callback = ProcessSessionExpired, wait = 60000\<rparr>,
        \<lparr>handle = 1, callback = ProcessSessionExpired, wait = 60000\<rparr>]
   \<and> timers (sessionAuthenticated (sessionAuthenticated loggedIn))
     = [\<lparr>handle = 0, callback = ProcessSessionRenewed, wait = 30000\<rparr>,
        \<lparr>handle = 1, callback = ProcessSessionExpired, wait = 60000\<rparr>,
        \<lparr>handle = 2, callback = ProcessSessionRenewed, wait = 30000\<rparr>,
        \<lparr>handle = 3, callback = ProcessSessionExpired, wait = 60000\<rparr>]"
  by (simp add: sessionAuthenticated_def setupFutureEvents_def scheduleExpire_def
                scheduleRenew_def scheduleJob_def later_def cancel_def
                jwtRemainingTimeInSeconds_def jwtRemainingTimeInSeconds_get_def
                expiresAt_def setSession_def loggedIn_def Let_def)

subsection \<open>The renew job\<close>




subsection \<open>The silent authentication helper\<close>

text \<open>
  C3. \<^verbatim>\<open>_trySilentAuth\<close> has one fixed, inverted polarity. With silent authentication
  switched on it calls the provider once, a success of the provider comes back as a
  rejection and a failure as a resolution. With it switched off the helper resolves at
  once and the route, its record of outgoing calls included, is untouched.
\<close>

theorem trySilentAuth_polarity:
  "(silentAuthOnSessionExpire (auth0 r) \<longrightarrow>
      (fst (authenticate x silent (session r)) = Resolved \<longrightarrow> fst (trySilentAuth x r) = Rejected)
    \<and> (fst (authenticate x silent (session r)) = Rejected \<longrightarrow> fst (trySilentAuth x r) = Resolved)
    \<and> trace (snd (trySilentAuth x r)) = trace r @ [Authenticate silent])
   \<and> (\<not> silentAuthOnSessionExpire (auth0 r) \<longrightarrow> trySilentAuth x r = (Resolved, r))"
  by (simp add: trySilentAuth_def silent_def Let_def split: prod.split outcome.split)

text \<open>With a provider that accepts, one that refuses, and the option switched off.\<close>

theorem trySilentAuth_polarity_witness:
  "fst (trySilentAuth accepting loggedIn) = Rejected
   \<and> fst (trySilentAuth refusing loggedIn) = Resolved
   \<and> trace (snd (trySilentAuth accepting loggedIn)) = [Authenticate silent]
   \<and> trySilentAuth accepting loggedInPlain = (Resolved, loggedInPlain)"
  using trySilentAuth_polarity [of loggedIn accepting]
        trySilentAuth_polarity [of loggedIn refusing]
        trySilentAuth_polarity [of loggedInPlain accepting]
  by (simp add: loggedIn_def loggedInPlain_def accepting_def refusing_def)

subsection \<open>The expire job\<close>

text \<open>
  C4. The expire job reads \<^verbatim>\<open>session.isAuthenticated\<close> again once the hook has
  resolved and the helper has settled. When the provider fails or silent authentication
  is switched off, and the session is authenticated at that point, the job calls
  \<^verbatim>\<open>invalidate()\<close> exactly once. Whatever the hook and the provider do, the job calls
  \<^verbatim>\<open>invalidate()\<close> at most once, and only when the session is authenticated at that
  point.
\<close>

theorem processSessionExpired_proceed:
  "(fst (hook x (session r)) = Resolved \<longrightarrow>
      (\<not> silentAuthOnSessionExpire (auth0 r)
         \<or> fst (authenticate x silent (session (afterHook x r))) = Rejected) \<longrightarrow>
      isAuthenticated (session (atRecheck x r)) \<longrightarrow>
      invalidations (processSessionExpired x r) = invalidations r + 1)
   \<and> (invalidations (processSessionExpired x r) \<noteq> invalidations r \<longrightarrow>
        isAuthenticated (session (atRecheck x r))
        \<and> invalidations (processSessionExpired x r) = invalidations r + 1)"
proof (intro conjI impI)
  assume "fst (hook x (session r)) = Resolved"
    and p: "\<not> silentAuthOnSessionExpire (auth0 r)
            \<or> fst (authenticate x silent (session (afterHook x r))) = Rejected"
    and a: "isAuthenticated (session (atRecheck x r))"
  then have h: "fst (callHook x r) = Resolved"
    by (simp add: callHook_fst)
  from p have "fst (trySilentAuth x (afterHook x r)) = Resolved"
    by (auto simp add: trySilentAuth_fst auth0_afterHook)
  with h a show "invalidations (processSessionExpired x r) = invalidations r + 1"
    by (simp add: processSessionExpired_cases invalidations_invalidateIfAuthenticated
                  invalidations_atRecheck)
next
  assume n: "invalidations (processSessionExpired x r) \<noteq> invalidations r"
  then show "isAuthenticated (session (atRecheck x r))"
    by (simp add: processSessionExpired_cases invalidations_invalidateIfAuthenticated
                  invalidations_atRecheck invalidations_afterHook
             split: outcome.splits if_splits)
next
  assume n: "invalidations (processSessionExpired x r) \<noteq> invalidations r"
  then show "invalidations (processSessionExpired x r) = invalidations r + 1"
    by (simp add: processSessionExpired_cases invalidations_invalidateIfAuthenticated
                  invalidations_atRecheck invalidations_afterHook
             split: outcome.splits if_splits)
qed

text \<open>On the example route with the mixin's own hook and a provider that refuses.\<close>

theorem processSessionExpired_proceed_witness:
  "fst (hook refusing (session loggedIn)) = Resolved
   \<and> fst (authenticate refusing silent (session (afterHook refusing loggedIn))) = Rejected
   \<and> isAuthenticated (session (atRecheck refusing loggedIn))
   \<and> invalidations loggedIn = 0
   \<and> invalidations (processSessionExpired refusing loggedIn) = 1"
proof -
  have h: "fst (hook refusing (session loggedIn)) = Resolved"
    by (simp add: refusing_def beforeSessionExpired_def)
  have p: "fst (authenticate refusing silent (session (afterHook refusing loggedIn))) = Rejected"
    by (simp add: refusing_def)
  have a: "isAuthenticated (session (atRecheck refusing loggedIn))"
    by (simp add: atRecheck_def afterHook_def trySilentAuth_def callHook_def refusing_def
                  beforeSessionExpired_def loggedIn_def)
  have z: "invalidations loggedIn = 0"
    by (simp add: invalidations_def loggedIn_def)
  have "invalidations (processSessionExpired refusing loggedIn) = invalidations loggedIn + 1"
    using h p a processSessionExpired_proceed [of refusing loggedIn] by blast
  with h p a z show ?thesis by simp
qed

text \<open>
  C5. When the expire job fires with silent authentication on expiry switched on and a
  provider that succeeds, and the hook's promise settles (the mixin's own hook resolves
  at once), \<^verbatim>\<open>invalidate()\<close> is not called and the expire job is scheduled again: a
  new timer running \<^verbatim>\<open>_processSessionExpired\<close> is started and recorded as
  \<^verbatim>\<open>_expireJob\<close>.
\<close>

theorem processSessionExpired_reprieve:
  assumes "fst (hook x (session r)) \<noteq> Pending"
    and "silentAuthOnSessionExpire (auth0 r)"
    and "fst (authenticate x silent (session (afterHook x r))) = Resolved"
  shows "invalidations (processSessionExpired x r) = invalidations r
   \<and> props (processSessionExpired x r) ''_expireJob'' = Some (fresh r)
   \<and> timers (processSessionExpired x r) \<noteq> []
   \<and> handle (last (timers (processSessionExpired x r))) = fresh r
   \<and> callback (last (timers (processSessionExpired x r))) = ProcessSessionExpired"
proof (cases "fst (callHook x r)")
  case Pending
  with assms(1) show ?thesis by (simp add: callHook_fst)
next
  case Rejected
  then have e: "processSessionExpired x r = scheduleExpire (afterHook x r)"
    by (simp add: processSessionExpired_cases)
  show ?thesis
    unfolding e using scheduleExpire_result [of "afterHook x r"]
    by (simp add: invalidations_afterHook fresh_afterHook)
next
  case Resolved
  from assms(2,3) have "fst (trySilentAuth x (afterHook x r)) = Rejected"
    by (simp add: trySilentAuth_fst auth0_afterHook)
  with Resolved have e: "processSessionExpired x r = scheduleExpire (atRecheck x r)"
    by (simp add: processSessionExpired_cases)
  show ?thesis
    unfolding e using scheduleExpire_result [of "atRecheck x r"]
    by (simp add: invalidations_atRecheck fresh_atRecheck)
qed

text \<open>On the example route with the mixin's own hook and a provider that accepts.\<close>

theorem processSessionExpired_reprieve_witness:
  "fst (hook accepting (session loggedIn)) \<noteq> Pending
   \<and> silentAuthOnSessionExpire (auth0 loggedIn)
   \<and> fst (authenticate accepting silent (session (afterHook accepting loggedIn))) = Resolved
   \<and> invalidations (processSessionExpired accepting loggedIn) = 0
   \<and> props (processSessionExpired accepting loggedIn) ''_expireJob'' = Some 0
   \<and> handle (last (timers (processSessionExpired accepting loggedIn))) = 0
   \<and> callback (last (timers (processSessionExpired accepting loggedIn))) = ProcessSessionExpired"
proof -
  have h: "fst (hook accepting (session loggedIn)) \<noteq> Pending"
    by (simp add: accepting_def beforeSessionExpired_def)
  have e: "silentAuthOnSessionExpire (auth0 loggedIn)"
    by (simp add: loggedIn_def)
  have p: "fst (authenticate accepting silent (session (afterHook accepting loggedIn))) = Resolved"
    by (simp add: accepting_def)
  have z: "invalidations loggedIn = 0" "fresh loggedIn = 0"
    by (simp_all add: invalidations_def loggedIn_def)
  from h e p z processSessionExpired_reprieve [OF h e p]
  show ?thesis by simp
qed

subsection \<open>Jobs and sessions that are not authenticated\<close>

text \<open>
  C6. The claim is that no operation schedules a job while the session is not
  authenticated. The setup checks \<^verbatim>\<open>session.isAuthenticated\<close>; the resolution handler
  of the renew job, \<^verbatim>\<open>_scheduleRenew\<close>, does not. When the renew job fires on the
  example route without an authenticated session and the provider refuses, a renew timer
  is started; the same happens when the session is authenticated as the job fires and the
  provider's failure leaves it unauthenticated.
\<close>

theorem processSessionRenewed_schedules_unauthenticated:
  "\<not> isAuthenticated (session loggedOut)
   \<and> \<not> isAuthenticated (session (processSessionRenewed refusing loggedOut))
   \<and> timers (processSessionRenewed refusing loggedOut)
       = [\<lparr>handle = 0, callback = ProcessSessionRenewed, wait = 30000\<rparr>]
   \<and> \<not> isAuthenticated (session (snd (trySilentAuth clearing loggedIn)))
   \<and> timers (processSessionRenewed clearing loggedIn)
       = [\<lparr>handle = 0, callback = ProcessSessionRenewed, wait = 30000\<rparr>]"
  by (simp add: processSessionRenewed_def trySilentAuth_def setSession_def
                scheduleRenew_def scheduleJob_def later_def cancel_def
                refusing_def clearing_def loggedIn_def loggedOut_def Let_def)

subsection \<open>The hook before expiry\<close>

text \<open>
  C7. The first thing the expire job does is call \<^verbatim>\<open>beforeSessionExpired\<close>: every
  other outgoing call of the job, the provider's and \<^verbatim>\<open>invalidate()\<close>, comes after it.
  While the hook's promise is pending nothing else runs: if it never settles, the job
  makes no further call, \<^verbatim>\<open>invalidate()\<close> is not called, and timers and recorded
  handles are as they were.
\<close>

theorem beforeSessionExpired_first:
  "(\<exists>es. trace (processSessionExpired x r) = trace r @ BeforeSessionExpired # es)
   \<and> (fst (hook x (session r)) = Pending \<longrightarrow>
        processSessionExpired x r = afterHook x r
        \<and> trace (processSessionExpired x r) = trace r @ [BeforeSessionExpired]
        \<and> invalidations (processSessionExpired x r) = invalidations r
        \<and> timers (processSessionExpired x r) = timers r
        \<and> props (processSessionExpired x r) = props r)"
proof (intro conjI impI)
  obtain es where es: "trace (atRecheck x r) = trace r @ BeforeSessionExpired # es"
    using trace_atRecheck by blast
  obtain fs where fs: "trace (invalidateIfAuthenticated x (atRecheck x r))
                         = trace (atRecheck x r) @ fs"
    using trace_invalidateIfAuthenticated by blast
  show "\<exists>es. trace (processSessionExpired x r) = trace r @ BeforeSessionExpired # es"
    by (simp add: processSessionExpired_cases trace_afterHook es fs split: outcome.split)
next
  assume "fst (hook x (session r)) = Pending"
  then have p: "fst (callHook x r) = Pending" by (simp add: callHook_fst)
  then show "processSessionExpired x r = afterHook x r"
    by (simp add: processSessionExpired_cases)
  from p show "trace (processSessionExpired x r) = trace r @ [BeforeSessionExpired]"
    by (simp add: processSessionExpired_cases trace_afterHook)
  from p show "invalidations (processSessionExpired x r) = invalidations r"
    by (simp add: processSessionExpired_cases invalidations_afterHook)
  from p show "timers (processSessionExpired x r) = timers r"
    by (simp add: processSessionExpired_cases afterHook_def callHook_timers)
  from p show "props (processSessionExpired x r) = props r"
    by (simp add: processSessionExpired_cases afterHook_def callHook_def split: prod.split)
qed

text \<open>On the example route with a hook that never settles.\<close>

theorem beforeSessionExpired_first_witness:
  "fst (hook stalling (session loggedIn)) = Pending
   \<and> trace (processSessionExpired stalling loggedIn) = [BeforeSessionExpired]
   \<and> invalidations (processSessionExpired stalling loggedIn) = 0
   \<and> timers (processSessionExpired stalling loggedIn) = []"
proof -
  have p: "fst (hook stalling (session loggedIn)) = Pending"
    by (simp add: stalling_def)
  have z: "invalidations loggedIn = 0" "trace loggedIn = []" "timers loggedIn = []"
    by (simp_all add: invalidations_def loggedIn_def)
  have "fst (hook stalling (session loggedIn)) = Pending \<longrightarrow>
          trace (processSessionExpired stalling loggedIn) = trace loggedIn @ [BeforeSessionExpired]
        \<and> invalidations (processSessionExpired stalling loggedIn) = invalidations loggedIn
        \<and> timers (processSessionExpired stalling loggedIn) = timers loggedIn"
    using beforeSessionExpired_first [of stalling loggedIn] by blast
  with p z show ?thesis by simp
qed

subsection \<open>Teardown\<close>

text \<open>
  C8. The claim is that after teardown no job scheduled earlier fires, the jobs of
  earlier runs of the setup included. \<^verbatim>\<open>willDestroy\<close> and
  \<^verbatim>\<open>sessionInvalidated\<close> cancel the two handles the route holds, and \<^verbatim>\<open>_scheduleJob\<close> never cancelled the handles they replaced. After
  two runs of the setup on the example route, teardown leaves the two timers of the first
  run live; when the run loop fires the expire timer among them, the hook and the provider
  are called and the session is invalidated.
\<close>

theorem willDestroy_leaves_earlier_timers:
  "timers (willDestroy (setupFutureEvents (setupFutureEvents loggedIn)))
     = [\<lparr>handle = 0, callback = ProcessSessionRenewed, wait = 30000\<rparr>,
        \<lparr>handle = 1, callback = ProcessSessionExpired, wait = 60000\<rparr>]
   \<and> timers (sessionInvalidated (setupFutureEvents (setupFutureEvents loggedIn)))
     = [\<lparr>handle = 0, callback = ProcessSessionRenewed, wait = 30000\<rparr>,
        \<lparr>handle = 1, callback = ProcessSessionExpired, wait = 60000\<rparr>]
   \<and> trace (fire refusing 1 (willDestroy (setupFutureEvents (setupFutureEvents loggedIn))))
     = [BeforeSessionExpired, Authenticate silent, Invalidate]"
  by (simp add: willDestroy_def sessionInvalidated_def clearJobs_def fire_def
                processSessionExpired_def callHook_def trySilentAuth_def
                invalidateIfAuthenticated_def beforeSessionExpired_def
                setupFutureEvents_def scheduleExpire_def scheduleRenew_def scheduleJob_def
                later_def cancel_def jwtRemainingTimeInSeconds_def
                jwtRemainingTimeInSeconds_get_def expiresAt_def setSession_def loggedIn_def
                refusing_def silent_def Let_def)

subsection \<open>Remaining seconds\<close>

text \<open>
  What the body of the getter computes when it runs, and that it runs on a read that
  finds nothing cached.
\<close>

lemma jwtRemainingTimeInSeconds_get_max:
  "jwtRemainingTimeInSeconds_get r
     = max 0 ((case expiresAt r of None \<Rightarrow> 0 | Some e \<Rightarrow> e) - clock r)"
  by (simp add: jwtRemainingTimeInSeconds_get_def Let_def max_def)

lemma jwtRemainingTimeInSeconds_uncached:
  "remaining r = None \<Longrightarrow>
     fst (jwtRemainingTimeInSeconds r) = jwtRemainingTimeInSeconds_get r"
  by (simp add: jwtRemainingTimeInSeconds_def Let_def)

text \<open>
  C9. The claim is that the remaining seconds are \<open>max 0 (expiresAt - now)\<close>, so 0
  whenever the expiration is not after now. The body of the getter computes that, and
  the comment above the property calls it the number of seconds until the token expires.
  But the property is a computed property whose only dependent key is
  \<^verbatim>\<open>_expiresAt\<close>: a read returns the value of the first read until the session
  changes, whatever \<^verbatim>\<open>now()\<close> has become. On the example route the first read, at
  second 1000, gives 60. A hundred seconds later the expiration 1060 is before now, the
  body of the getter would give 0, and a read still gives 60. When the expire job fires
  at that moment and the hook's promise rejects, the expire job is scheduled again with
  a delay of 60000 milliseconds.
\<close>

theorem jwtRemainingTimeInSeconds_stale:
  "fst (jwtRemainingTimeInSeconds loggedIn) = 60
   \<and> expiresAt (advance 100 (snd (jwtRemainingTimeInSeconds loggedIn))) = Some 1060
   \<and> clock (advance 100 (snd (jwtRemainingTimeInSeconds loggedIn))) = 1100
   \<and> jwtRemainingTimeInSeconds_get (advance 100 (snd (jwtRemainingTimeInSeconds loggedIn))) = 0
   \<and> fst (jwtRemainingTimeInSeconds (advance 100 (snd (jwtRemainingTimeInSeconds loggedIn))))
       = 60
   \<and> timers (fire objecting 1 (advance 100 (setupFutureEvents loggedIn)))
       = [\<lparr>handle = 0, callback = ProcessSessionRenewed, wait = 30000\<rparr>,
          \<lparr>handle = 2, callback = ProcessSessionExpired, wait = 60000\<rparr>]"
  by (simp add: jwtRemainingTimeInSeconds_def jwtRemainingTimeInSeconds_get_def expiresAt_def
                advance_def fire_def processSessionExpired_def callHook_def setSession_def
                setupFutureEvents_def scheduleExpire_def scheduleRenew_def scheduleJob_def
                later_def cancel_def objecting_def loggedIn_def Let_def)

subsection \<open>The renew job and the option for expiry\<close>

text \<open>
  C10. The renew job's attempt to authenticate is gated by the option for expiry,
  \<^verbatim>\<open>silentAuthOnSessionExpire\<close>. With that option off, the renew job is exactly
  \<^verbatim>\<open>_scheduleRenew\<close>: it makes no outgoing call (the provider is not called), leaves
  the session and the expire job alone and adds no expire timer, and, when the renewal
  interval is present and not zero, starts a new timer running
  \<^verbatim>\<open>_processSessionRenewed\<close> and records it as \<^verbatim>\<open>_renewJob\<close>. This holds for every
  session, authenticated or not.
\<close>

theorem processSessionRenewed_gate:
  assumes "\<not> silentAuthOnSessionExpire (auth0 r)"
  shows "processSessionRenewed x r = scheduleRenew r
   \<and> trace (processSessionRenewed x r) = trace r
   \<and> session (processSessionRenewed x r) = session r
   \<and> props (processSessionRenewed x r) ''_expireJob'' = props r ''_expireJob''
   \<and> set (live ProcessSessionExpired (processSessionRenewed x r))
        \<subseteq> set (live ProcessSessionExpired r)
   \<and> (\<forall>secs. silentAuthRenewSeconds (auth0 r) = Some secs \<and> secs \<noteq> 0 \<longrightarrow>
         props (processSessionRenewed x r) ''_renewJob'' = Some (fresh r)
         \<and> timers (processSessionRenewed x r) \<noteq> []
         \<and> last (timers (processSessionRenewed x r))
             = \<lparr>handle = fresh r, callback = ProcessSessionRenewed, wait = secs * 1000\<rparr>)"
proof -
  from assms have e: "processSessionRenewed x r = scheduleRenew r"
    by (simp add: processSessionRenewed_def trySilentAuth_off)
  show ?thesis
    unfolding e
    using live_scheduleRenew [of r] scheduleRenew_result [of r]
    by (simp add: props_scheduleRenew_expire)
qed

text \<open>On the example route with the option off; the provider would have accepted.\<close>

theorem processSessionRenewed_gate_witness:
  "\<not> silentAuthOnSessionExpire (auth0 loggedInPlain)
   \<and> trace (processSessionRenewed accepting loggedInPlain) = []
   \<and> props (processSessionRenewed accepting loggedInPlain) ''_expireJob'' = None
   \<and> props (processSessionRenewed accepting loggedInPlain) ''_renewJob'' = Some 0
   \<and> last (timers (processSessionRenewed accepting loggedInPlain))
       = \<lparr>handle = 0, callback = ProcessSessionRenewed, wait = 30000\<rparr>"
proof -
  have g: "\<not> silentAuthOnSessionExpire (auth0 loggedInPlain)"
    by (simp add: loggedInPlain_def)
  have z: "trace loggedInPlain = []" "props loggedInPlain ''_expireJob'' = None"
    "fresh loggedInPlain = 0" "silentAuthRenewSeconds (auth0 loggedInPlain) = Some 30"
    by (simp_all add: loggedInPlain_def loggedIn_def)
  have "trace (processSessionRenewed accepting loggedInPlain) = trace loggedInPlain
    \<and> props (processSessionRenewed accepting loggedInPlain) ''_expireJob''
        = props loggedInPlain ''_expireJob''
    \<and> (silentAuthRenewSeconds (auth0 loggedInPlain) = Some 30 \<and> (30::int) \<noteq> 0 \<longrightarrow>
         props (processSessionRenewed accepting loggedInPlain) ''_renewJob''
           = Some (fresh loggedInPlain)
         \<and> last (timers (processSessionRenewed accepting loggedInPlain))
             = \<lparr>handle = fresh loggedInPlain, callback = ProcessSessionRenewed,
                wait = 30 * 1000\<rparr>)"
    using processSessionRenewed_gate [OF g, of accepting] by blast
  with g z show ?thesis by simp
qed

end
